theory Spec2Isabelle
  imports Complex_Main "HOL-Library.Sublist"
begin

section \<open>JavaScript values used by the client\<close>

text \<open>
  The client is a React single-page application. Its logic is the route guard
  \<open>PrivateRoute\<close> and the route table of \<open>App\<close>, the Dashboard's \<open>loadData\<close>,
  \<open>handleLogout\<close> and \<open>handleFileUpload\<close>, the Progress page's \<open>loadProgress\<close>, the
  Analysis page's \<open>loadAnalysis\<close>, and the Auth page's \<open>handleSubmit\<close>. Each is
  embedded below as a function on an explicit browser state; an asynchronous handler
  takes the outcome of its requests as an argument and returns the state it ends in.

  \<open>localStorage.getItem\<close> returns a string or \<open>null\<close>; a condition on such a value
  is JavaScript truthiness: \<open>null\<close> and the empty string are falsy, every other string
  is truthy.
\<close>

definition truthy :: "string option \<Rightarrow> bool" where
  "truthy v = (case v of None \<Rightarrow> False | Some s \<Rightarrow> s \<noteq> [])"

text \<open>\<open>a || b\<close> on a nullable string and a string literal.\<close>

definition or_else :: "string option \<Rightarrow> string \<Rightarrow> string" where
  "or_else v d = (case v of None \<Rightarrow> d | Some s \<Rightarrow> if s \<noteq> [] then s else d)"

subsection \<open>Durable client storage\<close>

type_synonym storage = "string \<rightharpoonup> string"

definition getItem :: "storage \<Rightarrow> string \<Rightarrow> string option" where
  "getItem ls k = ls k"

definition setItem :: "storage \<Rightarrow> string \<Rightarrow> string \<Rightarrow> storage" where
  "setItem ls k v = ls(k \<mapsto> v)"

definition removeItem :: "storage \<Rightarrow> string \<Rightarrow> storage" where
  "removeItem ls k = ls(k := None)"

subsection \<open>Routes and rendered elements\<close>

text \<open>
  The five patterns of the route table: \<open>/\<close>, \<open>/auth\<close>, \<open>/dashboard\<close>,
  \<open>/analysis/:id\<close> and \<open>/progress\<close>.
\<close>

datatype path = Root | AuthPath | DashboardPath | AnalysisPath string | ProgressPath

fun path_string :: "path \<Rightarrow> string" where
  "path_string Root = ''/''"
| "path_string AuthPath = ''/auth''"
| "path_string DashboardPath = ''/dashboard''"
| "path_string (AnalysisPath i) = ''/analysis/'' @ i"
| "path_string ProgressPath = ''/progress''"

datatype element =
    LandingPage
  | AuthPage
  | Dashboard
  | AnalysisPage string
  | ProgressPage
  | Navigate path

subsection \<open>Server data\<close>

record user_info =
  user_id :: string
  name :: string
  email :: string

record analysis =
  analysis_id :: string
  analysis_date :: string
  progress_score :: "rat option"
  muscle_groups :: "(string \<times> string) list"
  weak_areas :: "string list"
  recommendations :: "string list"
  overall_assessment :: string
  image_base64 :: string

record progress_stats =
  total_analyses :: nat
  current_streak :: nat
  improvement_percentage :: rat
  muscle_development :: "(string \<times> string) list"

record auth_reply =
  token :: string
  user_of :: user_info

subsection \<open>Request outcomes\<close>

text \<open>
  An axios call resolves with the response body or rejects with an error whose
  \<open>response\<close> is absent on a transport failure; the handlers read
  \<open>error.response?.status\<close> and \<open>error.response?.data?.detail\<close>.
\<close>

record error_body =
  detail :: "string option"

record error_response =
  status :: nat
  data :: "error_body option"

record axios_error =
  response :: "error_response option"

text \<open>\<open>error.response?.status === 401\<close>\<close>

definition status_is_401 :: "axios_error \<Rightarrow> bool" where
  "status_is_401 e = (case response e of None \<Rightarrow> False | Some r \<Rightarrow> status r = 401)"

text \<open>\<open>error.response?.data?.detail\<close>\<close>

definition detail_of :: "axios_error \<Rightarrow> string option" where
  "detail_of e =
     (case response e of
        None \<Rightarrow> None
      | Some r \<Rightarrow> (case data r of None \<Rightarrow> None | Some b \<Rightarrow> detail b))"

text \<open>
  A request in flight settles at some time with an outcome. \<open>Promise.all\<close> fulfils
  with all the values when every promise fulfils, and rejects with the reason of the
  promise that rejects first in time (the one listed first when two reject together).
\<close>

type_synonym 'a settled = "nat \<times> (axios_error + 'a)"

definition both :: "'a settled \<Rightarrow> 'b settled \<Rightarrow> ('a \<times> 'b) settled" where
  "both p q =
     (case (p, q) of
        ((t, Inr a), (u, Inr b)) \<Rightarrow> (max t u, Inr (a, b))
      | ((t, Inl e), (u, Inr b)) \<Rightarrow> (t, Inl e)
      | ((t, Inr a), (u, Inl f)) \<Rightarrow> (u, Inl f)
      | ((t, Inl e), (u, Inl f)) \<Rightarrow> if u < t then (u, Inl f) else (t, Inl e))"

definition Promise_all2 :: "'a settled \<Rightarrow> 'b settled \<Rightarrow> axios_error + ('a \<times> 'b)" where
  "Promise_all2 p q = snd (both p q)"

definition Promise_all3 ::
  "'a settled \<Rightarrow> 'b settled \<Rightarrow> 'c settled \<Rightarrow> axios_error + ('a \<times> 'b \<times> 'c)" where
  "Promise_all3 p q r = snd (both p (both q r))"

subsection \<open>Browser state and observable effects\<close>

datatype effect =
    Request string string "string option"
  | ConsoleError string
  | ToastError string
  | ToastSuccess string
  | NavigateTo path

text \<open>
  \<open>localStorage\<close>, the \<open>isAuthenticated\<close> state of \<open>App\<close>, the router's current
  location, and the trace of requests, console messages, toasts and navigations in
  the order they happen. A request is traced with its method, its path under the
  API root and its \<open>Authorization\<close> header; its body is not.
\<close>

record browser =
  localStorage :: storage
  isAuthenticated :: bool
  location :: path
  trace :: "effect list"

definition emit :: "effect \<Rightarrow> browser \<Rightarrow> browser" where
  "emit e w = w\<lparr>trace := trace w @ [e]\<rparr>"

definition navigate :: "path \<Rightarrow> browser \<Rightarrow> browser" where
  "navigate p w = emit (NavigateTo p) (w\<lparr>location := p\<rparr>)"

text \<open>The header \<open>`Bearer ${token}`\<close>; a \<open>null\<close> token prints as \<open>null\<close>.\<close>

definition bearer :: "string option \<Rightarrow> string" where
  "bearer t = ''Bearer '' @ (case t of None \<Rightarrow> ''null'' | Some s \<Rightarrow> s)"

section \<open>App.js: the route guard and the route table\<close>

definition PrivateRoute :: "storage \<Rightarrow> element \<Rightarrow> element" where
  "PrivateRoute ls children =
     (let token = getItem ls ''token''
      in if truthy token then children else Navigate AuthPath)"

text \<open>The mount effect of \<open>App\<close>: \<open>setIsAuthenticated(!!token)\<close>.\<close>

definition App_mount :: "browser \<Rightarrow> browser" where
  "App_mount w = w\<lparr>isAuthenticated := truthy (getItem (localStorage w) ''token'')\<rparr>"

text \<open>The element the route table renders at a location.\<close>

fun App :: "bool \<Rightarrow> storage \<Rightarrow> path \<Rightarrow> element" where
  "App auth ls Root = (if auth then Navigate DashboardPath else LandingPage)"
| "App auth ls AuthPath = AuthPage"
| "App auth ls DashboardPath = PrivateRoute ls Dashboard"
| "App auth ls (AnalysisPath i) = PrivateRoute ls (AnalysisPage i)"
| "App auth ls ProgressPath = PrivateRoute ls ProgressPage"

definition render :: "browser \<Rightarrow> element" where
  "render w = App (isAuthenticated w) (localStorage w) (location w)"

text \<open>\<open>onAuthSuccess\<close>, the callback \<open>App\<close> hands to the Auth page.\<close>

definition onAuthSuccess :: "browser \<Rightarrow> browser" where
  "onAuthSuccess w = w\<lparr>isAuthenticated := True\<rparr>"

section \<open>Dashboard: loading, logout and upload\<close>

record dashboard_state =
  user :: "user_info option"
  analyses :: "analysis list"
  stats :: "progress_stats option"
  uploading :: bool
  loading :: bool

text \<open>The initial state of the component's five \<open>useState\<close> hooks.\<close>

definition dashboard_init :: dashboard_state where
  "dashboard_init =
     \<lparr>user = None, analyses = [], stats = None, uploading = False, loading = True\<rparr>"

definition handleLogout :: "browser \<Rightarrow> browser" where
  "handleLogout w =
     navigate Root
       (w\<lparr>localStorage := removeItem (removeItem (localStorage w) ''token'') ''user''\<rparr>)"

text \<open>
  \<open>loadData\<close> issues the three reads with the stored token, awaits their
  \<open>Promise.all\<close>, sets the three data fields on fulfilment, logs and (on status
  401 only) logs out on rejection, and clears \<open>loading\<close> in either case.
\<close>

definition loadData ::
  "user_info settled \<Rightarrow> analysis list settled \<Rightarrow> progress_stats settled \<Rightarrow>
   browser \<times> dashboard_state \<Rightarrow> browser \<times> dashboard_state" where
  "loadData userReq analysesReq statsReq = (\<lambda>(w, s).
     let token = getItem (localStorage w) ''token'';
         config = Some (bearer token);
         w1 = emit (Request ''GET'' ''/auth/me'' config) w;
         w2 = emit (Request ''GET'' ''/analysis/history'' config) w1;
         w3 = emit (Request ''GET'' ''/progress/stats'' config) w2
     in case Promise_all3 userReq analysesReq statsReq of
          Inr (userRes, analysesRes, statsRes) \<Rightarrow>
            (w3, s\<lparr>user := Some userRes, analyses := analysesRes,
                   stats := Some statsRes, loading := False\<rparr>)
        | Inl error \<Rightarrow>
            let w4 = emit (ConsoleError ''Error loading data:'') w3;
                w5 = (if status_is_401 error then handleLogout w4 else w4)
            in (w5, s\<lparr>loading := False\<rparr>))"

record upload_file =
  file_name :: string
  file_type :: string

text \<open>
  \<open>handleFileUpload\<close> receives the change event's file list and, when it posts,
  the outcome of the upload request (the created analysis on success).
\<close>

definition handleFileUpload ::
  "upload_file list \<Rightarrow> axios_error + analysis \<Rightarrow>
   browser \<times> dashboard_state \<Rightarrow> browser \<times> dashboard_state" where
  "handleFileUpload files reply = (\<lambda>(w, s).
     case files of
       [] \<Rightarrow> (w, s)
     | f # _ \<Rightarrow>
         if \<not> prefix ''image/'' (file_type f) then
           (emit (ToastError ''Please upload an image file'') w, s)
         else
           let s1 = s\<lparr>uploading := True\<rparr>;
               token = getItem (localStorage w) ''token'';
               w1 = emit (Request ''POST'' ''/analysis/upload'' (Some (bearer token))) w
           in (case reply of
                 Inr response_data \<Rightarrow>
                   let w2 = emit (ToastSuccess ''Analysis complete!'') w1;
                       w3 = navigate (AnalysisPath (analysis_id response_data)) w2
                   in (w3, s1\<lparr>uploading := False\<rparr>)
               | Inl error \<Rightarrow>
                   let w2 = emit (ConsoleError ''Upload error:'') w1;
                       w3 = emit (ToastError (or_else (detail_of error) ''Upload failed'')) w2
                   in (w3, s1\<lparr>uploading := False\<rparr>)))"

section \<open>Progress page and Analysis page: loading\<close>

record progress_state =
  p_analyses :: "analysis list"
  p_stats :: "progress_stats option"
  p_loading :: bool

definition progress_init :: progress_state where
  "progress_init = \<lparr>p_analyses = [], p_stats = None, p_loading = True\<rparr>"

definition loadProgress ::
  "analysis list settled \<Rightarrow> progress_stats settled \<Rightarrow>
   browser \<times> progress_state \<Rightarrow> browser \<times> progress_state" where
  "loadProgress analysesReq statsReq = (\<lambda>(w, s).
     let token = getItem (localStorage w) ''token'';
         config = Some (bearer token);
         w1 = emit (Request ''GET'' ''/analysis/history'' config) w;
         w2 = emit (Request ''GET'' ''/progress/stats'' config) w1
     in case Promise_all2 analysesReq statsReq of
          Inr (analysesRes, statsRes) \<Rightarrow>
            (w2, s\<lparr>p_analyses := analysesRes, p_stats := Some statsRes, p_loading := False\<rparr>)
        | Inl error \<Rightarrow>
            (emit (ConsoleError ''Error loading progress:'') w2, s\<lparr>p_loading := False\<rparr>))"

record analysis_state =
  shown :: "analysis option"
  a_loading :: bool

definition analysis_init :: analysis_state where
  "analysis_init = \<lparr>shown = None, a_loading = True\<rparr>"

definition loadAnalysis ::
  "string \<Rightarrow> axios_error + analysis \<Rightarrow>
   browser \<times> analysis_state \<Rightarrow> browser \<times> analysis_state" where
  "loadAnalysis i reply = (\<lambda>(w, s).
     let token = getItem (localStorage w) ''token'';
         w1 = emit (Request ''GET'' (''/analysis/'' @ i) (Some (bearer token))) w
     in case reply of
          Inr response_data \<Rightarrow> (w1, s\<lparr>shown := Some response_data, a_loading := False\<rparr>)
        | Inl error \<Rightarrow>
            (emit (ConsoleError ''Error loading analysis:'') w1, s\<lparr>a_loading := False\<rparr>))"

section \<open>Auth page: login and registration\<close>

record form_data =
  f_email :: string
  f_password :: string
  f_name :: string

record auth_state =
  isLogin :: bool
  formData :: form_data
  auth_loading :: bool

text \<open>
  \<open>handleSubmit\<close> posts to the login or the register endpoint (no bearer header),
  and on success stores the token and \<open>JSON.stringify\<close> of the user, toasts, calls
  \<open>onAuthSuccess\<close> and navigates to the dashboard. \<open>stringify\<close> stands for
  \<open>JSON.stringify\<close> on user objects.
\<close>

definition handleSubmit ::
  "(user_info \<Rightarrow> string) \<Rightarrow> axios_error + auth_reply \<Rightarrow>
   browser \<times> auth_state \<Rightarrow> browser \<times> auth_state" where
  "handleSubmit stringify reply = (\<lambda>(w, s).
     let s1 = s\<lparr>auth_loading := True\<rparr>;
         endpoint = (if isLogin s then ''/auth/login'' else ''/auth/register'');
         w1 = emit (Request ''POST'' endpoint None) w
     in case reply of
          Inr response_data \<Rightarrow>
            let ls1 = setItem (localStorage w1) ''token'' (token response_data);
                ls2 = setItem ls1 ''user'' (stringify (user_of response_data));
                w2 = w1\<lparr>localStorage := ls2\<rparr>;
                w3 = emit (ToastSuccess (if isLogin s then ''Welcome back!''
                                         else ''Account created successfully!'')) w2;
                w4 = onAuthSuccess w3;
                w5 = navigate DashboardPath w4
            in (w5, s1\<lparr>auth_loading := False\<rparr>)
        | Inl error \<Rightarrow>
            let w2 = emit (ConsoleError ''Auth error:'') w1;
                w3 = emit (ToastError (or_else (detail_of error) ''Authentication failed'')) w2
            in (w3, s1\<lparr>auth_loading := False\<rparr>))"

section \<open>Rendering the progress score\<close>

text \<open>
  A JSX child is a string or a number. The three views print
  \<open>analysis.progress_score?.toFixed(0) || 50\<close>.

  \<open>Number.prototype.toFixed(0)\<close> on a finite number \<open>x\<close>: the sign is split off;
  below \<open>10^21\<close> the result is the decimal digits of the integer nearest to \<open>x\<close>,
  the larger one on a tie; from \<open>10^21\<close> on it is \<open>Number::toString\<close>, taken here as
  the parameter \<open>toString\<close>. A finite double is a rational number.
\<close>

datatype jsx = Text string | Num int

definition digit_char :: "nat \<Rightarrow> char" where
  "digit_char d = ''0123456789'' ! d"

fun digits :: "nat \<Rightarrow> string" where
  "digits n = (if n < 10 then [digit_char n] else digits (n div 10) @ [digit_char (n mod 10)])"

declare digits.simps [simp del]

definition toFixed0 :: "(rat \<Rightarrow> string) \<Rightarrow> rat \<Rightarrow> string" where
  "toFixed0 toString x =
     (let s = (if x < 0 then ''-'' else []);
          y = (if x < 0 then - x else x);
          m = (if 10 ^ 21 \<le> y then toString y else digits (nat \<lfloor>y + 1 / 2\<rfloor>))
      in s @ m)"

definition progress_score_cell :: "(rat \<Rightarrow> string) \<Rightarrow> analysis \<Rightarrow> jsx" where
  "progress_score_cell toString a =
     (case map_option (toFixed0 toString) (progress_score a) of
        None \<Rightarrow> Num 50
      | Some m \<Rightarrow> if m \<noteq> [] then Text m else Num 50)"

text \<open>
  The detail view prints the cell of the loaded analysis, after the loading and the
  not-found screens.
\<close>

datatype analysis_view = Loading_analysis | Analysis_not_found | Analysis_detail jsx

definition AnalysisPage_render :: "(rat \<Rightarrow> string) \<Rightarrow> analysis_state \<Rightarrow> analysis_view" where
  "AnalysisPage_render toString s =
     (if a_loading s then Loading_analysis
      else case shown s of
             None \<Rightarrow> Analysis_not_found
           | Some a \<Rightarrow> Analysis_detail (progress_score_cell toString a))"

text \<open>
  The dashboard's dynamic parts: the user's name, the three statistics (each
  \<open>stats?.field || 0\<close>, the improvement with its sign prefix), the upload button,
  and either the no-analyses notice or one card for each of the first six analyses
  (score cell and the first two weak areas). The markup has no element for a
  failed load.
\<close>

record dashboard_card =
  card_id :: string
  card_score :: jsx
  card_weak_areas :: "string list"

datatype recent_analyses = No_analyses_notice | Cards "dashboard_card list"

record dashboard_page =
  user_name :: "string option"
  stat_analyses :: nat
  stat_streak :: nat
  stat_improvement :: "string \<times> rat"
  upload_label :: string
  upload_disabled :: bool
  recent :: recent_analyses

datatype dashboard_view = Loading_view | Page_view dashboard_page

definition analysis_card :: "(rat \<Rightarrow> string) \<Rightarrow> analysis \<Rightarrow> dashboard_card" where
  "analysis_card toString a =
     \<lparr>card_id = analysis_id a,
      card_score = progress_score_cell toString a,
      card_weak_areas = take 2 (weak_areas a)\<rparr>"

definition Dashboard_render :: "(rat \<Rightarrow> string) \<Rightarrow> dashboard_state \<Rightarrow> dashboard_view" where
  "Dashboard_render toString s =
     (if loading s then Loading_view
      else Page_view
        \<lparr>user_name = map_option name (user s),
         stat_analyses = (case stats s of None \<Rightarrow> 0 | Some st \<Rightarrow> total_analyses st),
         stat_streak = (case stats s of None \<Rightarrow> 0 | Some st \<Rightarrow> current_streak st),
         stat_improvement =
           (case stats s of
              None \<Rightarrow> ([], 0)
            | Some st \<Rightarrow>
                (if improvement_percentage st > 0 then ''+'' else [],
                 improvement_percentage st)),
         upload_label = (if uploading s then ''Analyzing...'' else ''Choose Photo''),
         upload_disabled = uploading s,
         recent =
           (if length (analyses s) = 0 then No_analyses_notice
            else Cards (map (analysis_card toString) (take 6 (analyses s))))\<rparr>)"

text \<open>The timeline of the Progress page prints one entry for every analysis.\<close>

definition ProgressPage_timeline_scores ::
  "(rat \<Rightarrow> string) \<Rightarrow> progress_state \<Rightarrow> jsx list" where
  "ProgressPage_timeline_scores toString s =
     (if p_loading s \<or> length (p_analyses s) = 0 then []
      else map (progress_score_cell toString) (p_analyses s))"

text \<open>Messages the user sees are the toasts.\<close>

fun toasts :: "effect list \<Rightarrow> string list" where
  "toasts [] = []"
| "toasts (ToastError m # es) = m # toasts es"
| "toasts (ToastSuccess m # es) = m # toasts es"
| "toasts (e # es) = toasts es"

text \<open>The requests a trace holds.\<close>

fun requests :: "effect list \<Rightarrow> effect list" where
  "requests [] = []"
| "requests (Request m u h # es) = Request m u h # requests es"
| "requests (e # es) = requests es"

text \<open>The three requests of \<open>loadData\<close> and the two of \<open>loadProgress\<close>, as traced.\<close>

definition dashboard_requests :: "browser \<Rightarrow> effect list" where
  "dashboard_requests w =
     [Request ''GET'' ''/auth/me'' (Some (bearer (getItem (localStorage w) ''token''))),
      Request ''GET'' ''/analysis/history'' (Some (bearer (getItem (localStorage w) ''token''))),
      Request ''GET'' ''/progress/stats'' (Some (bearer (getItem (localStorage w) ''token'')))]"

definition progress_requests :: "browser \<Rightarrow> effect list" where
  "progress_requests w =
     [Request ''GET'' ''/analysis/history'' (Some (bearer (getItem (localStorage w) ''token''))),
      Request ''GET'' ''/progress/stats'' (Some (bearer (getItem (localStorage w) ''token'')))]"

definition upload_request :: "browser \<Rightarrow> effect" where
  "upload_request w =
     Request ''POST'' ''/analysis/upload'' (Some (bearer (getItem (localStorage w) ''token'')))"

text \<open>Reading a decimal numeral back, to say what the printed digits denote.\<close>

definition digit_value :: "char \<Rightarrow> nat" where
  "digit_value c = of_char c - 48"

definition decimal_value :: "string \<Rightarrow> nat" where
  "decimal_value cs = foldl (\<lambda>n c. 10 * n + digit_value c) 0 cs"

section \<open>Sample inputs\<close>

definition signed_in :: browser where
  "signed_in =
     \<lparr>localStorage = [''token'' \<mapsto> ''tok'', ''user'' \<mapsto> ''{}''],
      isAuthenticated = True, location = DashboardPath, trace = []\<rparr>"

definition signed_out :: browser where
  "signed_out =
     \<lparr>localStorage = Map.empty, isAuthenticated = False, location = AuthPath, trace = []\<rparr>"

definition unauthorized :: axios_error where
  "unauthorized =
     \<lparr>response = Some \<lparr>status = 401, data = Some \<lparr>detail = Some ''Invalid token''\<rparr>\<rparr>\<rparr>"

definition server_error :: axios_error where
  "server_error = \<lparr>response = Some \<lparr>status = 500, data = None\<rparr>\<rparr>"

definition empty_detail :: axios_error where
  "empty_detail = \<lparr>response = Some \<lparr>status = 400, data = Some \<lparr>detail = Some []\<rparr>\<rparr>\<rparr>"

definition too_large :: axios_error where
  "too_large =
     \<lparr>response = Some \<lparr>status = 413, data = Some \<lparr>detail = Some ''Image too large''\<rparr>\<rparr>\<rparr>"

definition sample_user :: user_info where
  "sample_user = \<lparr>user_id = ''u1'', name = ''Ana'', email = ''ana@example.com''\<rparr>"

definition sample_analysis :: analysis where
  "sample_analysis =
     \<lparr>analysis_id = ''a42'', analysis_date = ''2025-01-02'', progress_score = Some (145 / 2),
      muscle_groups = [(''chest'', ''strong'')], weak_areas = [''calves''],
      recommendations = [''calf raises''], overall_assessment = ''good'',
      image_base64 = []\<rparr>"

definition sample_stats :: progress_stats where
  "sample_stats =
     \<lparr>total_analyses = 1, current_streak = 1, improvement_percentage = 0,
      muscle_development = [(''chest'', ''strong'')]\<rparr>"

definition pdf_file :: upload_file where
  "pdf_file = \<lparr>file_name = ''notes.pdf'', file_type = ''application/pdf''\<rparr>"

definition jpeg_file :: upload_file where
  "jpeg_file = \<lparr>file_name = ''front.jpg'', file_type = ''image/jpeg''\<rparr>"

definition sample_form :: auth_state where
  "sample_form =
     \<lparr>isLogin = True,
      formData = \<lparr>f_email = ''ana@example.com'', f_password = ''pw'', f_name = []\<rparr>,
      auth_loading = False\<rparr>"

text \<open>A stand-in for \<open>JSON.stringify\<close> on the user object, for concrete runs.\<close>

definition sample_stringify :: "user_info \<Rightarrow> string" where
  "sample_stringify u = ''name='' @ name u"

section \<open>Reading a trace\<close>

lemma toasts_append: "toasts (xs @ ys) = toasts xs @ toasts ys"
  by (induction xs rule: toasts.induct) simp_all

lemma requests_append: "requests (xs @ ys) = requests xs @ requests ys"
  by (induction xs rule: requests.induct) simp_all

section \<open>The route guard\<close>

lemma PrivateRoute_falsy:
  "getItem ls ''token'' = None \<or> getItem ls ''token'' = Some [] \<Longrightarrow>
   PrivateRoute ls c = Navigate AuthPath"
  by (auto simp add: PrivateRoute_def truthy_def)

lemma PrivateRoute_truthy:
  "getItem ls ''token'' = Some t \<Longrightarrow> t \<noteq> [] \<Longrightarrow> PrivateRoute ls c = c"
  by (simp add: PrivateRoute_def truthy_def)

text \<open>
  Claim C2, as stated, fails: a token that is stored but empty is present in storage,
  yet the guard redirects, because the guard tests the token's truthiness. Storage
  holding the empty string under \<open>token\<close> sends \<open>/dashboard\<close> to \<open>/auth\<close>.
\<close>

theorem empty_token_counterexample:
  "getItem [''token'' \<mapsto> []] ''token'' = Some [] \<and>
   App True [''token'' \<mapsto> []] DashboardPath = Navigate AuthPath \<and>
   App True [''token'' \<mapsto> []] DashboardPath \<noteq> Dashboard"
  by (simp add: PrivateRoute_def truthy_def getItem_def)

text \<open>
  Claim C2, amended: on each of the three protected routes, when no token is stored
  (or the stored token is the empty string) the route renders a redirect to \<open>/auth\<close>
  and not the protected child; when a non-empty token is stored the child is
  rendered, whatever the token's text is (no format or expiry check).
\<close>

theorem protected_routes_guard:
  "(getItem ls ''token'' = None \<or> getItem ls ''token'' = Some [] \<longrightarrow>
      App auth ls DashboardPath = Navigate AuthPath \<and>
      App auth ls (AnalysisPath i) = Navigate AuthPath \<and>
      App auth ls ProgressPath = Navigate AuthPath) \<and>
   (\<forall>t. getItem ls ''token'' = Some t \<and> t \<noteq> [] \<longrightarrow>
      App auth ls DashboardPath = Dashboard \<and>
      App auth ls (AnalysisPath i) = AnalysisPage i \<and>
      App auth ls ProgressPath = ProgressPage)"
  using PrivateRoute_falsy PrivateRoute_truthy by simp

theorem protected_routes_guard_witness:
  "getItem Map.empty ''token'' = None \<and>
   App False Map.empty DashboardPath = Navigate AuthPath \<and>
   App False Map.empty (AnalysisPath ''7'') = Navigate AuthPath \<and>
   App False Map.empty ProgressPath = Navigate AuthPath \<and>
   getItem [''token'' \<mapsto> ''not.a.jwt''] ''token'' = Some ''not.a.jwt'' \<and>
   App False [''token'' \<mapsto> ''not.a.jwt''] DashboardPath = Dashboard \<and>
   App False [''token'' \<mapsto> ''not.a.jwt''] (AnalysisPath ''7'') = AnalysisPage ''7'' \<and>
   App False [''token'' \<mapsto> ''not.a.jwt''] ProgressPath = ProgressPage"
proof -
  have a: "getItem Map.empty ''token'' = None"
    by (simp add: getItem_def)
  have b: "getItem [''token'' \<mapsto> ''not.a.jwt''] ''token'' = Some ''not.a.jwt''"
    by (simp add: getItem_def)
  show ?thesis
    using a b protected_routes_guard [of Map.empty False "''7''"]
      protected_routes_guard [of "[''token'' \<mapsto> ''not.a.jwt'']" False "''7''"]
    by simp
qed

section \<open>The upload handler's early returns\<close>

text \<open>
  Claim C9: with an empty file list the upload handler returns at once. The browser
  (storage, location, trace of requests and messages) and the component state
  (the in-flight flag included) are exactly what they were.
\<close>

theorem handleFileUpload_no_file:
  "handleFileUpload [] reply (w, s) = (w, s)"
  by (simp add: handleFileUpload_def)

text \<open>
  Claim C5: when the first selected file's declared type does not start with
  \<open>image/\<close>, the only thing the handler does is show the validation toast: the
  trace gains that one message and no request, and the storage, the location and
  the component state (the in-flight flag included) are unchanged.
\<close>

theorem handleFileUpload_rejects_non_image:
  "\<not> prefix ''image/'' (file_type f) \<Longrightarrow>
   handleFileUpload (f # fs) reply (w, s) =
     (w\<lparr>trace := trace w @ [ToastError ''Please upload an image file'']\<rparr>, s) \<and>
   requests (trace (fst (handleFileUpload (f # fs) reply (w, s)))) = requests (trace w) \<and>
   uploading (snd (handleFileUpload (f # fs) reply (w, s))) = uploading s \<and>
   localStorage (fst (handleFileUpload (f # fs) reply (w, s))) = localStorage w"
  by (simp add: handleFileUpload_def emit_def requests_append)

theorem handleFileUpload_rejects_non_image_witness:
  "\<not> prefix ''image/'' (file_type pdf_file) \<and>
   handleFileUpload [pdf_file] (Inr sample_analysis) (signed_in, dashboard_init) =
     (signed_in\<lparr>trace := trace signed_in @ [ToastError ''Please upload an image file'']\<rparr>,
      dashboard_init) \<and>
   requests (trace (fst (handleFileUpload [pdf_file] (Inr sample_analysis)
                           (signed_in, dashboard_init)))) = requests (trace signed_in) \<and>
   uploading (snd (handleFileUpload [pdf_file] (Inr sample_analysis)
                     (signed_in, dashboard_init))) = uploading dashboard_init \<and>
   localStorage (fst (handleFileUpload [pdf_file] (Inr sample_analysis)
                        (signed_in, dashboard_init))) = localStorage signed_in"
proof -
  have h: "\<not> prefix ''image/'' (file_type pdf_file)"
    by (simp add: pdf_file_def)
  from handleFileUpload_rejects_non_image [OF h] h show ?thesis
    by blast
qed

section \<open>Joined requests\<close>

lemma both_cases:
  "snd (both p q) =
     (case snd p of
        Inr a \<Rightarrow> (case snd q of Inr b \<Rightarrow> Inr (a, b) | Inl f \<Rightarrow> Inl f)
      | Inl e \<Rightarrow> (case snd q of Inr b \<Rightarrow> Inl e | Inl f \<Rightarrow> if fst q < fst p then Inl f else Inl e))"
  by (cases p; cases q) (simp add: both_def split: sum.splits)

lemma Promise_all2_fulfils:
  "snd p = Inr a \<Longrightarrow> snd q = Inr b \<Longrightarrow> Promise_all2 p q = Inr (a, b)"
  by (simp add: Promise_all2_def both_cases)

lemma Promise_all2_rejects:
  "isl (snd p) \<or> isl (snd q) \<Longrightarrow> isl (Promise_all2 p q)"
  by (auto simp add: Promise_all2_def both_cases isl_def split: sum.splits)

lemma Promise_all3_fulfils:
  "snd p = Inr a \<Longrightarrow> snd q = Inr b \<Longrightarrow> snd r = Inr c \<Longrightarrow>
   Promise_all3 p q r = Inr (a, b, c)"
  by (simp add: Promise_all3_def both_cases)

lemma Promise_all3_rejects:
  "isl (snd p) \<or> isl (snd q) \<or> isl (snd r) \<Longrightarrow> isl (Promise_all3 p q r)"
  by (auto simp add: Promise_all3_def both_cases isl_def split: sum.splits)

text \<open>The reason of a rejected join is the reason of one of the joined requests.\<close>

lemma Promise_all3_reason:
  "Promise_all3 p q r = Inl e \<Longrightarrow> snd p = Inl e \<or> snd q = Inl e \<or> snd r = Inl e"
  by (auto simp add: Promise_all3_def both_cases split: sum.splits if_splits)

lemma Promise_all3_single:
  "(snd p = Inl e \<and> \<not> isl (snd q) \<and> \<not> isl (snd r)) \<or>
   (\<not> isl (snd p) \<and> snd q = Inl e \<and> \<not> isl (snd r)) \<or>
   (\<not> isl (snd p) \<and> \<not> isl (snd q) \<and> snd r = Inl e) \<Longrightarrow>
   Promise_all3 p q r = Inl e"
  by (auto simp add: Promise_all3_def both_cases isl_def split: sum.splits)

section \<open>The loaders\<close>

lemma loadData_fulfilled:
  "Promise_all3 p q r = Inr (u, a, st) \<Longrightarrow>
   loadData p q r (w, s) =
     (w\<lparr>trace := trace w @ dashboard_requests w\<rparr>,
      s\<lparr>user := Some u, analyses := a, stats := Some st, loading := False\<rparr>)"
  by (simp add: loadData_def emit_def Let_def dashboard_requests_def)

lemma loadData_rejected:
  "Promise_all3 p q r = Inl e \<Longrightarrow>
   loadData p q r (w, s) =
     (if status_is_401 e
      then handleLogout
             (w\<lparr>trace := trace w @ dashboard_requests w @ [ConsoleError ''Error loading data:'']\<rparr>)
      else w\<lparr>trace := trace w @ dashboard_requests w @ [ConsoleError ''Error loading data:'']\<rparr>,
      s\<lparr>loading := False\<rparr>)"
  by (simp add: loadData_def emit_def Let_def dashboard_requests_def)

lemma loadData_state_rejected:
  "isl (Promise_all3 p q r) \<Longrightarrow> snd (loadData p q r (w, s)) = s\<lparr>loading := False\<rparr>"
  by (auto simp add: isl_def loadData_rejected)

lemma loadProgress_state_rejected:
  "isl (Promise_all2 p q) \<Longrightarrow> snd (loadProgress p q (w, s)) = s\<lparr>p_loading := False\<rparr>"
  by (auto simp add: isl_def loadProgress_def Let_def)

lemma loadProgress_state_fulfilled:
  "Promise_all2 p q = Inr (a, st) \<Longrightarrow>
   snd (loadProgress p q (w, s)) = s\<lparr>p_analyses := a, p_stats := Some st, p_loading := False\<rparr>"
  by (simp add: loadProgress_def Let_def)

lemma loadProgress_browser:
  "fst (loadProgress p q (w, s)) =
     (case Promise_all2 p q of
        Inr v \<Rightarrow> w\<lparr>trace := trace w @ progress_requests w\<rparr>
      | Inl e \<Rightarrow> w\<lparr>trace := trace w @ progress_requests w @
                                [ConsoleError ''Error loading progress:'']\<rparr>)"
  by (simp add: loadProgress_def emit_def Let_def progress_requests_def split: sum.splits)

lemma loadAnalysis_browser:
  "fst (loadAnalysis i reply (w, s)) =
     (case reply of
        Inr v \<Rightarrow>
          w\<lparr>trace := trace w @
               [Request ''GET'' (''/analysis/'' @ i)
                  (Some (bearer (getItem (localStorage w) ''token'')))]\<rparr>
      | Inl e \<Rightarrow>
          w\<lparr>trace := trace w @
               [Request ''GET'' (''/analysis/'' @ i)
                  (Some (bearer (getItem (localStorage w) ''token''))),
                ConsoleError ''Error loading analysis:'']\<rparr>)"
  by (simp add: loadAnalysis_def emit_def Let_def split: sum.splits)

text \<open>
  Claim C3: the Dashboard's and the Progress page's loaders join all-or-nothing.
  When every joined request fulfils, the component's data fields are set to the
  fetched values; when any one of them rejects, the component state is the old one
  with only \<open>loading\<close> cleared, so none of the data fields is set.
\<close>

theorem loaders_all_or_nothing:
  "(snd userReq = Inr u \<and> snd analysesReq = Inr a \<and> snd statsReq = Inr st \<longrightarrow>
      snd (loadData userReq analysesReq statsReq (w, s)) =
        s\<lparr>user := Some u, analyses := a, stats := Some st, loading := False\<rparr>) \<and>
   (isl (snd userReq) \<or> isl (snd analysesReq) \<or> isl (snd statsReq) \<longrightarrow>
      snd (loadData userReq analysesReq statsReq (w, s)) = s\<lparr>loading := False\<rparr>) \<and>
   (snd analysesReq = Inr a \<and> snd statsReq = Inr st \<longrightarrow>
      snd (loadProgress analysesReq statsReq (w, ps)) =
        ps\<lparr>p_analyses := a, p_stats := Some st, p_loading := False\<rparr>) \<and>
   (isl (snd analysesReq) \<or> isl (snd statsReq) \<longrightarrow>
      snd (loadProgress analysesReq statsReq (w, ps)) = ps\<lparr>p_loading := False\<rparr>)"
proof (intro conjI impI)
  assume "snd userReq = Inr u \<and> snd analysesReq = Inr a \<and> snd statsReq = Inr st"
  then have "Promise_all3 userReq analysesReq statsReq = Inr (u, a, st)"
    by (simp add: Promise_all3_fulfils)
  then show "snd (loadData userReq analysesReq statsReq (w, s)) =
      s\<lparr>user := Some u, analyses := a, stats := Some st, loading := False\<rparr>"
    by (simp add: loadData_fulfilled)
next
  assume "isl (snd userReq) \<or> isl (snd analysesReq) \<or> isl (snd statsReq)"
  then show "snd (loadData userReq analysesReq statsReq (w, s)) = s\<lparr>loading := False\<rparr>"
    by (intro loadData_state_rejected Promise_all3_rejects)
next
  assume "snd analysesReq = Inr a \<and> snd statsReq = Inr st"
  then show "snd (loadProgress analysesReq statsReq (w, ps)) =
      ps\<lparr>p_analyses := a, p_stats := Some st, p_loading := False\<rparr>"
    by (simp add: loadProgress_state_fulfilled Promise_all2_fulfils)
next
  assume "isl (snd analysesReq) \<or> isl (snd statsReq)"
  then show "snd (loadProgress analysesReq statsReq (w, ps)) = ps\<lparr>p_loading := False\<rparr>"
    by (intro loadProgress_state_rejected Promise_all2_rejects)
qed

theorem loaders_all_or_nothing_witness:
  "snd (loadData (3, Inr sample_user) (1, Inr [sample_analysis]) (2, Inr sample_stats)
          (signed_in, dashboard_init)) =
     dashboard_init\<lparr>user := Some sample_user, analyses := [sample_analysis],
                    stats := Some sample_stats, loading := False\<rparr> \<and>
   isl (snd (2::nat, Inl server_error :: axios_error + progress_stats)) \<and>
   snd (loadData (3, Inr sample_user) (1, Inr [sample_analysis]) (2, Inl server_error)
          (signed_in, dashboard_init)) = dashboard_init\<lparr>loading := False\<rparr> \<and>
   snd (loadProgress (1, Inr [sample_analysis]) (2, Inr sample_stats)
          (signed_in, progress_init)) =
     progress_init\<lparr>p_analyses := [sample_analysis], p_stats := Some sample_stats,
                   p_loading := False\<rparr> \<and>
   snd (loadProgress (1, Inr [sample_analysis]) (2, Inl server_error)
          (signed_in, progress_init)) = progress_init\<lparr>p_loading := False\<rparr>"
  using
    loaders_all_or_nothing [of "(3, Inr sample_user)" sample_user "(1, Inr [sample_analysis])"
      "[sample_analysis]" "(2, Inr sample_stats)" sample_stats signed_in dashboard_init
      progress_init]
    loaders_all_or_nothing [of "(3, Inr sample_user)" sample_user "(1, Inr [sample_analysis])"
      "[sample_analysis]" "(2, Inl server_error)" sample_stats signed_in dashboard_init
      progress_init]
  by simp

text \<open>
  Claim C6, as stated, fails on its second half. When the stats request alone fails
  with status 500, \<open>loadData\<close> only writes to the console: no toast is shown, and
  the dashboard renders the page of an account with no data (no name, zero
  statistics, the no-analyses notice), which carries no error indication.
\<close>

theorem silent_load_failure_counterexample:
  "\<not> status_is_401 server_error \<and>
   toasts (trace (fst (loadData (10, Inr sample_user) (20, Inr [sample_analysis])
                        (30, Inl server_error) (signed_in, dashboard_init)))) = [] \<and>
   Dashboard_render (\<lambda>x. [])
     (snd (loadData (10, Inr sample_user) (20, Inr [sample_analysis])
             (30, Inl server_error) (signed_in, dashboard_init))) =
     Page_view \<lparr>user_name = None, stat_analyses = 0, stat_streak = 0,
                stat_improvement = ([], 0), upload_label = ''Choose Photo'',
                upload_disabled = False, recent = No_analyses_notice\<rparr>"
proof -
  have p: "Promise_all3 (10::nat, Inr sample_user) (20::nat, Inr [sample_analysis])
             (30::nat, Inl server_error :: axios_error + progress_stats) = Inl server_error"
    by (simp add: Promise_all3_def both_def)
  have n: "\<not> status_is_401 server_error"
    by (simp add: status_is_401_def server_error_def)
  show ?thesis
    by (simp add: loadData_rejected [OF p] n dashboard_requests_def Dashboard_render_def
        dashboard_init_def signed_in_def)
qed

text \<open>
  Claim C6, amended: when one of the Dashboard's three requests fails with an error
  whose status is not 401 (a transport failure included) and the other two succeed,
  the session stays as it was (storage and location unchanged), the failure is
  written to the console only (the trace gains the three requests and one console
  message, so the toasts shown are the ones shown before), and the component leaves
  the loading state with its data fields unchanged; on the first load that renders
  the dashboard page with no name, zero statistics and the no-analyses notice.
\<close>

theorem loadData_other_failure:
  assumes "\<not> status_is_401 e"
    and "(snd userReq = Inl e \<and> \<not> isl (snd analysesReq) \<and> \<not> isl (snd statsReq)) \<or>
         (\<not> isl (snd userReq) \<and> snd analysesReq = Inl e \<and> \<not> isl (snd statsReq)) \<or>
         (\<not> isl (snd userReq) \<and> \<not> isl (snd analysesReq) \<and> snd statsReq = Inl e)"
  shows "loadData userReq analysesReq statsReq (w, s) =
           (w\<lparr>trace := trace w @ dashboard_requests w @ [ConsoleError ''Error loading data:'']\<rparr>,
            s\<lparr>loading := False\<rparr>) \<and>
         localStorage (fst (loadData userReq analysesReq statsReq (w, s))) = localStorage w \<and>
         location (fst (loadData userReq analysesReq statsReq (w, s))) = location w \<and>
         toasts (trace (fst (loadData userReq analysesReq statsReq (w, s)))) = toasts (trace w) \<and>
         Dashboard_render ts (snd (loadData userReq analysesReq statsReq (w, dashboard_init))) =
           Page_view \<lparr>user_name = None, stat_analyses = 0, stat_streak = 0,
                      stat_improvement = ([], 0), upload_label = ''Choose Photo'',
                      upload_disabled = False, recent = No_analyses_notice\<rparr>"
proof -
  have "Promise_all3 userReq analysesReq statsReq = Inl e"
    using assms(2) by (rule Promise_all3_single)
  then have eq: "loadData userReq analysesReq statsReq (w, s') =
           (w\<lparr>trace := trace w @ dashboard_requests w @ [ConsoleError ''Error loading data:'']\<rparr>,
            s'\<lparr>loading := False\<rparr>)" for s'
    using assms(1) by (simp add: loadData_rejected)
  have "toasts (dashboard_requests w @ [ConsoleError m]) = []" for m
    by (simp add: dashboard_requests_def)
  then show ?thesis
    by (simp add: eq toasts_append Dashboard_render_def dashboard_init_def)
qed

theorem loadData_other_failure_witness:
  "\<not> status_is_401 server_error \<and>
   loadData (10, Inr sample_user) (20, Inr [sample_analysis]) (30, Inl server_error)
     (signed_in, dashboard_init) =
     (signed_in\<lparr>trace := trace signed_in @ dashboard_requests signed_in @
                   [ConsoleError ''Error loading data:'']\<rparr>,
      dashboard_init\<lparr>loading := False\<rparr>) \<and>
   localStorage (fst (loadData (10, Inr sample_user) (20, Inr [sample_analysis])
                        (30, Inl server_error) (signed_in, dashboard_init))) =
     localStorage signed_in \<and>
   location (fst (loadData (10, Inr sample_user) (20, Inr [sample_analysis])
                    (30, Inl server_error) (signed_in, dashboard_init))) = location signed_in \<and>
   toasts (trace (fst (loadData (10, Inr sample_user) (20, Inr [sample_analysis])
                          (30, Inl server_error) (signed_in, dashboard_init)))) =
     toasts (trace signed_in)"
proof -
  have n: "\<not> status_is_401 server_error"
    by (simp add: status_is_401_def server_error_def)
  have o: "(snd (10::nat, Inr sample_user :: axios_error + user_info) = Inl server_error \<and>
            \<not> isl (snd (20::nat, Inr [sample_analysis] :: axios_error + analysis list)) \<and>
            \<not> isl (snd (30::nat, Inl server_error :: axios_error + progress_stats))) \<or>
           (\<not> isl (snd (10::nat, Inr sample_user :: axios_error + user_info)) \<and>
            snd (20::nat, Inr [sample_analysis] :: axios_error + analysis list) = Inl server_error \<and>
            \<not> isl (snd (30::nat, Inl server_error :: axios_error + progress_stats))) \<or>
           (\<not> isl (snd (10::nat, Inr sample_user :: axios_error + user_info)) \<and>
            \<not> isl (snd (20::nat, Inr [sample_analysis] :: axios_error + analysis list)) \<and>
            snd (30::nat, Inl server_error :: axios_error + progress_stats) = Inl server_error)"
    by simp
  from loadData_other_failure [OF n o] n show ?thesis
    by blast
qed

section \<open>Authorization failures outside the Dashboard loader\<close>

lemma handleFileUpload_failure:
  "prefix ''image/'' (file_type f) \<Longrightarrow>
   handleFileUpload (f # fs) (Inl e) (w, s) =
     (w\<lparr>trace := trace w @
          [upload_request w, ConsoleError ''Upload error:'',
           ToastError (or_else (detail_of e) ''Upload failed'')]\<rparr>,
      s\<lparr>uploading := False\<rparr>)"
  by (simp add: handleFileUpload_def emit_def Let_def upload_request_def)

lemma handleFileUpload_success:
  "prefix ''image/'' (file_type f) \<Longrightarrow>
   handleFileUpload (f # fs) (Inr a) (w, s) =
     (w\<lparr>location := AnalysisPath (analysis_id a),
        trace := trace w @
          [upload_request w, ToastSuccess ''Analysis complete!'',
           NavigateTo (AnalysisPath (analysis_id a))]\<rparr>,
      s\<lparr>uploading := False\<rparr>)"
  by (simp add: handleFileUpload_def emit_def navigate_def Let_def upload_request_def)

text \<open>
  Claim C1: an authorization failure is an implicit logout only in the Dashboard's
  \<open>loadData\<close>. With a signed-in browser and every request answered 401,
  \<open>loadData\<close> removes the token and the user and navigates to \<open>/\<close>; but
  \<open>loadProgress\<close> and \<open>loadAnalysis\<close> only write to the console, and
  \<open>handleFileUpload\<close> only shows the server's message: in these three the storage
  still holds the token and the user, and the location has not moved.
\<close>

theorem unauthorized_keeps_session:
  "status_is_401 unauthorized \<and>
   getItem (localStorage signed_in) ''token'' = Some ''tok'' \<and>
   getItem (localStorage signed_in) ''user'' = Some ''{}'' \<and>
   getItem (localStorage (fst (loadData (10, Inl unauthorized) (20, Inl unauthorized)
      (30, Inl unauthorized) (signed_in, dashboard_init)))) ''token'' = None \<and>
   getItem (localStorage (fst (loadData (10, Inl unauthorized) (20, Inl unauthorized)
      (30, Inl unauthorized) (signed_in, dashboard_init)))) ''user'' = None \<and>
   location (fst (loadData (10, Inl unauthorized) (20, Inl unauthorized)
      (30, Inl unauthorized) (signed_in, dashboard_init))) = Root \<and>
   fst (loadProgress (10, Inl unauthorized) (20, Inl unauthorized)
          (signed_in\<lparr>location := ProgressPath\<rparr>, progress_init)) =
     signed_in\<lparr>location := ProgressPath,
               trace := [Request ''GET'' ''/analysis/history'' (Some ''Bearer tok''),
                         Request ''GET'' ''/progress/stats'' (Some ''Bearer tok''),
                         ConsoleError ''Error loading progress:'']\<rparr> \<and>
   fst (loadAnalysis ''a42'' (Inl unauthorized)
          (signed_in\<lparr>location := AnalysisPath ''a42''\<rparr>, analysis_init)) =
     signed_in\<lparr>location := AnalysisPath ''a42'',
               trace := [Request ''GET'' ''/analysis/a42'' (Some ''Bearer tok''),
                         ConsoleError ''Error loading analysis:'']\<rparr> \<and>
   fst (handleFileUpload [jpeg_file] (Inl unauthorized)
          (signed_in, dashboard_init\<lparr>loading := False\<rparr>)) =
     signed_in\<lparr>trace := [Request ''POST'' ''/analysis/upload'' (Some ''Bearer tok''),
                         ConsoleError ''Upload error:'', ToastError ''Invalid token'']\<rparr>"
proof -
  have a: "Promise_all2 (10::nat, Inl unauthorized :: axios_error + analysis list)
             (20::nat, Inl unauthorized :: axios_error + progress_stats) = Inl unauthorized"
    by (simp add: Promise_all2_def both_def)
  have a3: "Promise_all3 (10::nat, Inl unauthorized :: axios_error + user_info)
             (20::nat, Inl unauthorized :: axios_error + analysis list)
             (30::nat, Inl unauthorized :: axios_error + progress_stats) = Inl unauthorized"
    by (simp add: Promise_all3_def both_def)
  have b: "prefix ''image/'' (file_type jpeg_file)"
    by (simp add: jpeg_file_def)
  have c: "detail_of unauthorized = Some ''Invalid token''"
    by (simp add: detail_of_def unauthorized_def)
  have d: "status_is_401 unauthorized"
    by (simp add: status_is_401_def unauthorized_def)
  show ?thesis
    by (simp add: loadProgress_browser a loadAnalysis_browser handleFileUpload_failure [OF b]
        loadData_rejected [OF a3] handleLogout_def navigate_def emit_def removeItem_def
        c d or_else_def progress_requests_def upload_request_def bearer_def getItem_def
        signed_in_def)
qed

section \<open>The upload flow\<close>

text \<open>
  Claim C4, as stated, fails on the message: a server-provided detail that is the
  empty string is present in the response, yet \<open>detail || 'Upload failed'\<close> shows
  the generic message, the empty string being falsy.
\<close>

theorem empty_detail_counterexample:
  "prefix ''image/'' (file_type jpeg_file) \<and>
   detail_of empty_detail = Some [] \<and>
   toasts (trace (fst (handleFileUpload [jpeg_file] (Inl empty_detail)
                         (signed_in, dashboard_init\<lparr>loading := False\<rparr>)))) =
     [''Upload failed'']"
proof -
  have b: "prefix ''image/'' (file_type jpeg_file)"
    by (simp add: jpeg_file_def)
  have c: "detail_of empty_detail = Some []"
    by (simp add: detail_of_def empty_detail_def)
  show ?thesis
    by (simp add: handleFileUpload_failure [OF b] b c or_else_def upload_request_def
        signed_in_def)
qed

text \<open>
  Claim C4, amended: for an accepted upload (a first file whose type starts with
  \<open>image/\<close>), a successful response makes the client navigate to
  \<open>/analysis/{returned id}\<close>; a failure leaves the location where it was, and
  shows the server-provided detail when it is present and non-empty, the generic
  \<open>Upload failed\<close> otherwise; a failure whose status is not 401 leaves the storage
  unchanged; in both cases the in-flight flag ends false.
\<close>

theorem handleFileUpload_accepted:
  assumes "prefix ''image/'' (file_type f)"
  shows
    "(\<forall>a. reply = Inr a \<longrightarrow>
        fst (handleFileUpload (f # fs) reply (w, s)) =
          w\<lparr>location := AnalysisPath (analysis_id a),
            trace := trace w @ [upload_request w, ToastSuccess ''Analysis complete!'',
                                NavigateTo (AnalysisPath (analysis_id a))]\<rparr> \<and>
        path_string (location (fst (handleFileUpload (f # fs) reply (w, s)))) =
          ''/analysis/'' @ analysis_id a) \<and>
     (\<forall>e. reply = Inl e \<longrightarrow>
        location (fst (handleFileUpload (f # fs) reply (w, s))) = location w \<and>
        trace (fst (handleFileUpload (f # fs) reply (w, s))) =
          trace w @ [upload_request w, ConsoleError ''Upload error:'',
                     ToastError (case detail_of e of
                                   None \<Rightarrow> ''Upload failed''
                                 | Some m \<Rightarrow> if m \<noteq> [] then m else ''Upload failed'')] \<and>
        (\<not> status_is_401 e \<longrightarrow>
           localStorage (fst (handleFileUpload (f # fs) reply (w, s))) = localStorage w)) \<and>
     uploading (snd (handleFileUpload (f # fs) reply (w, s))) = False"
proof (cases reply)
  case (Inl e)
  then show ?thesis
    using assms by (simp add: handleFileUpload_failure or_else_def)
next
  case (Inr a)
  then show ?thesis
    using assms by (simp add: handleFileUpload_success)
qed

theorem handleFileUpload_accepted_witness:
  "prefix ''image/'' (file_type jpeg_file) \<and>
   fst (handleFileUpload [jpeg_file] (Inr sample_analysis) (signed_in, dashboard_init)) =
     signed_in\<lparr>location := AnalysisPath ''a42'',
       trace := trace signed_in @ [upload_request signed_in, ToastSuccess ''Analysis complete!'',
                                   NavigateTo (AnalysisPath ''a42'')]\<rparr> \<and>
   path_string (location (fst (handleFileUpload [jpeg_file] (Inr sample_analysis)
                                 (signed_in, dashboard_init)))) = ''/analysis/a42'' \<and>
   uploading (snd (handleFileUpload [jpeg_file] (Inr sample_analysis)
                     (signed_in, dashboard_init))) = False \<and>
   \<not> status_is_401 too_large \<and>
   location (fst (handleFileUpload [jpeg_file] (Inl too_large) (signed_in, dashboard_init))) =
     location signed_in \<and>
   trace (fst (handleFileUpload [jpeg_file] (Inl too_large) (signed_in, dashboard_init))) =
     trace signed_in @ [upload_request signed_in, ConsoleError ''Upload error:'',
                        ToastError ''Image too large''] \<and>
   trace (fst (handleFileUpload [jpeg_file] (Inl server_error) (signed_in, dashboard_init))) =
     trace signed_in @ [upload_request signed_in, ConsoleError ''Upload error:'',
                        ToastError ''Upload failed''] \<and>
   localStorage (fst (handleFileUpload [jpeg_file] (Inl too_large)
                        (signed_in, dashboard_init))) = localStorage signed_in \<and>
   uploading (snd (handleFileUpload [jpeg_file] (Inl too_large)
                     (signed_in, dashboard_init))) = False"
proof -
  have b: "prefix ''image/'' (file_type jpeg_file)"
    by (simp add: jpeg_file_def)
  have n: "\<not> status_is_401 too_large"
    by (simp add: status_is_401_def too_large_def)
  have d: "detail_of too_large = Some ''Image too large''"
    by (simp add: detail_of_def too_large_def)
  have d': "detail_of server_error = None"
    by (simp add: detail_of_def server_error_def)
  have i: "analysis_id sample_analysis = ''a42''"
    by (simp add: sample_analysis_def)
  show ?thesis
    using b n
      handleFileUpload_accepted [OF b, of "Inr sample_analysis" Nil signed_in dashboard_init]
      handleFileUpload_accepted [OF b, of "Inl too_large" Nil signed_in dashboard_init]
      handleFileUpload_accepted [OF b, of "Inl server_error" Nil signed_in dashboard_init]
    by (simp add: d d' i)
qed

section \<open>Login and registration\<close>

lemma handleSubmit_success:
  "handleSubmit stringify (Inr r) (w, s) =
     (w\<lparr>localStorage := (localStorage w)(''token'' \<mapsto> token r, ''user'' \<mapsto> stringify (user_of r)),
        isAuthenticated := True,
        location := DashboardPath,
        trace := trace w @
          [Request ''POST'' (if isLogin s then ''/auth/login'' else ''/auth/register'') None,
           ToastSuccess (if isLogin s then ''Welcome back!'' else ''Account created successfully!''),
           NavigateTo DashboardPath]\<rparr>,
      s\<lparr>auth_loading := False\<rparr>)"
  by (simp add: handleSubmit_def emit_def navigate_def onAuthSuccess_def setItem_def Let_def)

lemma handleSubmit_failure:
  "handleSubmit stringify (Inl e) (w, s) =
     (w\<lparr>trace := trace w @
          [Request ''POST'' (if isLogin s then ''/auth/login'' else ''/auth/register'') None,
           ConsoleError ''Auth error:'',
           ToastError (or_else (detail_of e) ''Authentication failed'')]\<rparr>,
      s\<lparr>auth_loading := False\<rparr>)"
  by (simp add: handleSubmit_def emit_def Let_def)

text \<open>
  Claim C7, as stated, fails on the render: a successful login whose response
  carries the empty string as token stores it and navigates to \<open>/dashboard\<close>, where
  the guard finds a falsy token and renders the redirect to the auth page.
\<close>

theorem empty_token_login_counterexample:
  "render (fst (handleSubmit sample_stringify (Inr \<lparr>token = [], user_of = sample_user\<rparr>)
                  (signed_out, sample_form))) = Navigate AuthPath"
  by (simp add: handleSubmit_success render_def PrivateRoute_def getItem_def truthy_def)

text \<open>
  Claim C7, amended: after every successful login or register call the token and
  the serialized user are both in storage, the authenticated flag is set and the
  location is \<open>/dashboard\<close>; when the returned token is not the empty string, the
  render there is the dashboard.
\<close>

theorem handleSubmit_populates_session:
  "getItem (localStorage (fst (handleSubmit stringify (Inr r) (w, s)))) ''token'' =
     Some (token r) \<and>
   getItem (localStorage (fst (handleSubmit stringify (Inr r) (w, s)))) ''user'' =
     Some (stringify (user_of r)) \<and>
   isAuthenticated (fst (handleSubmit stringify (Inr r) (w, s))) \<and>
   location (fst (handleSubmit stringify (Inr r) (w, s))) = DashboardPath \<and>
   (token r \<noteq> [] \<longrightarrow> render (fst (handleSubmit stringify (Inr r) (w, s))) = Dashboard)"
  by (simp add: handleSubmit_success render_def PrivateRoute_def getItem_def truthy_def)

theorem handleSubmit_populates_session_witness:
  "token \<lparr>token = ''tok'', user_of = sample_user\<rparr> \<noteq> [] \<and>
   getItem (localStorage (fst (handleSubmit sample_stringify
       (Inr \<lparr>token = ''tok'', user_of = sample_user\<rparr>) (signed_out, sample_form)))) ''token'' =
     Some ''tok'' \<and>
   getItem (localStorage (fst (handleSubmit sample_stringify
       (Inr \<lparr>token = ''tok'', user_of = sample_user\<rparr>) (signed_out, sample_form)))) ''user'' =
     Some ''name=Ana'' \<and>
   isAuthenticated (fst (handleSubmit sample_stringify
       (Inr \<lparr>token = ''tok'', user_of = sample_user\<rparr>) (signed_out, sample_form))) \<and>
   location (fst (handleSubmit sample_stringify
       (Inr \<lparr>token = ''tok'', user_of = sample_user\<rparr>) (signed_out, sample_form))) =
     DashboardPath \<and>
   render (fst (handleSubmit sample_stringify
       (Inr \<lparr>token = ''tok'', user_of = sample_user\<rparr>) (signed_out, sample_form))) = Dashboard"
  using handleSubmit_populates_session [of sample_stringify
      "\<lparr>token = ''tok'', user_of = sample_user\<rparr>" signed_out sample_form]
  by (simp add: sample_stringify_def sample_user_def)

section \<open>The keys of durable storage\<close>

lemma handleLogout_storage:
  "localStorage (handleLogout w) = (localStorage w)(''token'' := None, ''user'' := None)"
  by (simp add: handleLogout_def navigate_def emit_def removeItem_def)

lemma loadData_storage:
  "localStorage (fst (loadData p q r (w, s))) =
     (case Promise_all3 p q r of
        Inr v \<Rightarrow> localStorage w
      | Inl e \<Rightarrow> if status_is_401 e then (localStorage w)(''token'' := None, ''user'' := None)
                 else localStorage w)"
  by (simp add: loadData_def emit_def Let_def handleLogout_storage split: sum.splits)

lemma handleFileUpload_storage:
  "localStorage (fst (handleFileUpload files reply (w, s))) = localStorage w"
  by (simp add: handleFileUpload_def emit_def navigate_def Let_def split: list.splits sum.splits)

text \<open>
  Claim C8: the only keys of durable storage are \<open>token\<close> and \<open>user\<close>. A successful
  login or registration writes exactly these two and a failed one writes nothing;
  logout removes exactly these two and touches no other key. \<open>loadData\<close> removes
  exactly these two when the reason its joined requests reject with has status 401
  (the authorization-failure logout), and leaves the storage as it is when the
  reason has another status or when every request fulfils. The upload handler, the
  other two loaders and the mount effect of \<open>App\<close> leave the storage as it is. So a
  storage with no other key keeps having no other key: it holds exactly the two
  keys after populating, and none after a logout or an authorization-failure logout.
\<close>

theorem storage_keys:
  "localStorage (fst (handleSubmit stringify (Inr r) (w, a))) =
     (localStorage w)(''token'' \<mapsto> token r, ''user'' \<mapsto> stringify (user_of r)) \<and>
   localStorage (fst (handleSubmit stringify (Inl e) (w, a))) = localStorage w \<and>
   localStorage (handleLogout w) = (localStorage w)(''token'' := None, ''user'' := None) \<and>
   getItem (localStorage (handleLogout w)) ''token'' = None \<and>
   getItem (localStorage (handleLogout w)) ''user'' = None \<and>
   (\<forall>k. k \<noteq> ''token'' \<and> k \<noteq> ''user'' \<longrightarrow>
      getItem (localStorage (handleLogout w)) k = getItem (localStorage w) k \<and>
      getItem (localStorage (fst (handleSubmit stringify (Inr r) (w, a)))) k =
        getItem (localStorage w) k \<and>
      getItem (localStorage (fst (loadData userReq analysesReq statsReq (w, d)))) k =
        getItem (localStorage w) k) \<and>
   (\<forall>x. Promise_all3 userReq analysesReq statsReq = Inl x \<and> status_is_401 x \<longrightarrow>
      localStorage (fst (loadData userReq analysesReq statsReq (w, d))) =
        (localStorage w)(''token'' := None, ''user'' := None) \<and>
      getItem (localStorage (fst (loadData userReq analysesReq statsReq (w, d)))) ''token'' =
        None \<and>
      getItem (localStorage (fst (loadData userReq analysesReq statsReq (w, d)))) ''user'' =
        None) \<and>
   (\<forall>x. Promise_all3 userReq analysesReq statsReq = Inl x \<and> \<not> status_is_401 x \<longrightarrow>
      localStorage (fst (loadData userReq analysesReq statsReq (w, d))) = localStorage w) \<and>
   (\<forall>y. Promise_all3 userReq analysesReq statsReq = Inr y \<longrightarrow>
      localStorage (fst (loadData userReq analysesReq statsReq (w, d))) = localStorage w) \<and>
   (localStorage (fst (loadData userReq analysesReq statsReq (w, d))) = localStorage w \<or>
    localStorage (fst (loadData userReq analysesReq statsReq (w, d))) =
      localStorage (handleLogout w)) \<and>
   localStorage (fst (handleFileUpload files reply (w, d))) = localStorage w \<and>
   localStorage (fst (loadProgress analysesReq statsReq (w, p))) = localStorage w \<and>
   localStorage (fst (loadAnalysis i reply' (w, v))) = localStorage w \<and>
   localStorage (App_mount w) = localStorage w \<and>
   (dom (localStorage w) \<subseteq> {''token'', ''user''} \<longrightarrow>
      dom (localStorage (fst (handleSubmit stringify (Inr r) (w, a)))) = {''token'', ''user''} \<and>
      dom (localStorage (handleLogout w)) = {} \<and>
      dom (localStorage (fst (loadData userReq analysesReq statsReq (w, d))))
        \<subseteq> {''token'', ''user''} \<and>
      (\<forall>x. Promise_all3 userReq analysesReq statsReq = Inl x \<and> status_is_401 x \<longrightarrow>
         dom (localStorage (fst (loadData userReq analysesReq statsReq (w, d)))) = {}))"
proof -
  let ?L = "localStorage (fst (loadData userReq analysesReq statsReq (w, d)))"
  let ?cleared = "(localStorage w)(''token'' := None, ''user'' := None)"
  have 1: "localStorage (fst (handleSubmit stringify (Inr r) (w, a))) =
     (localStorage w)(''token'' \<mapsto> token r, ''user'' \<mapsto> stringify (user_of r))"
    by (simp add: handleSubmit_success)
  have 2: "localStorage (fst (handleSubmit stringify (Inl e) (w, a))) = localStorage w"
    by (simp add: handleSubmit_failure)
  note 3 = handleLogout_storage [of w]
  have lo: "getItem (localStorage (handleLogout w)) ''token'' = None"
    "getItem (localStorage (handleLogout w)) ''user'' = None"
    by (simp_all add: 3 getItem_def)
  have un: "?L = ?cleared" if "Promise_all3 userReq analysesReq statsReq = Inl x \<and> status_is_401 x"
    for x
    using that by (simp add: loadData_storage)
  have un': "getItem ?L ''token'' = None \<and> getItem ?L ''user'' = None"
    if "Promise_all3 userReq analysesReq statsReq = Inl x \<and> status_is_401 x" for x
    using un [OF that] by (simp add: getItem_def)
  have ot: "?L = localStorage w"
    if "Promise_all3 userReq analysesReq statsReq = Inl x \<and> \<not> status_is_401 x" for x
    using that by (simp add: loadData_storage)
  have ok: "?L = localStorage w" if "Promise_all3 userReq analysesReq statsReq = Inr y" for y
    using that by (simp add: loadData_storage)
  have 4: "?L = localStorage w \<or> ?L = localStorage (handleLogout w)"
    by (simp add: loadData_storage handleLogout_storage split: sum.splits)
  have fr: "getItem (localStorage (handleLogout w)) k = getItem (localStorage w) k \<and>
      getItem (localStorage (fst (handleSubmit stringify (Inr r) (w, a)))) k =
        getItem (localStorage w) k \<and>
      getItem ?L k = getItem (localStorage w) k"
    if "k \<noteq> ''token'' \<and> k \<noteq> ''user''" for k
  proof -
    from 4 3 that have "getItem ?L k = getItem (localStorage w) k"
      by (auto simp add: getItem_def)
    with that show ?thesis
      by (simp add: 1 3 getItem_def)
  qed
  note 5 = handleFileUpload_storage [of files reply w d]
  have 6: "localStorage (fst (loadProgress analysesReq statsReq (w, p))) = localStorage w"
    by (simp add: loadProgress_browser split: sum.splits)
  have 7: "localStorage (fst (loadAnalysis i reply' (w, v))) = localStorage w"
    by (simp add: loadAnalysis_browser split: sum.splits)
  have 8: "localStorage (App_mount w) = localStorage w"
    by (simp add: App_mount_def)
  have 9: "dom (localStorage (fst (handleSubmit stringify (Inr r) (w, a)))) = {''token'', ''user''} \<and>
      dom (localStorage (handleLogout w)) = {} \<and>
      dom ?L \<subseteq> {''token'', ''user''} \<and>
      (\<forall>x. Promise_all3 userReq analysesReq statsReq = Inl x \<and> status_is_401 x \<longrightarrow>
         dom ?L = {})"
    if inv: "dom (localStorage w) \<subseteq> {''token'', ''user''}"
  proof -
    have s: "dom (localStorage (fst (handleSubmit stringify (Inr r) (w, a)))) = {''token'', ''user''}"
      using inv unfolding 1 by auto
    have c: "dom ?cleared = {}"
      using inv by auto
    then have l: "dom (localStorage (handleLogout w)) = {}"
      by (simp add: 3)
    have m: "dom ?L \<subseteq> {''token'', ''user''}"
    proof (rule disjE [OF 4])
      assume "?L = localStorage w"
      with inv show ?thesis by simp
    next
      assume "?L = localStorage (handleLogout w)"
      with l show ?thesis by simp
    qed
    have u: "dom ?L = {}"
      if "Promise_all3 userReq analysesReq statsReq = Inl x \<and> status_is_401 x" for x
      using un [OF that] c by simp
    from s l m u show ?thesis by blast
  qed
  have fr': "\<forall>k. k \<noteq> ''token'' \<and> k \<noteq> ''user'' \<longrightarrow>
      getItem (localStorage (handleLogout w)) k = getItem (localStorage w) k \<and>
      getItem (localStorage (fst (handleSubmit stringify (Inr r) (w, a)))) k =
        getItem (localStorage w) k \<and>
      getItem ?L k = getItem (localStorage w) k"
    using fr by blast
  have u1: "\<forall>x. Promise_all3 userReq analysesReq statsReq = Inl x \<and> status_is_401 x \<longrightarrow>
      ?L = ?cleared \<and> getItem ?L ''token'' = None \<and> getItem ?L ''user'' = None"
    using un un' by blast
  have u2: "\<forall>x. Promise_all3 userReq analysesReq statsReq = Inl x \<and> \<not> status_is_401 x \<longrightarrow>
      ?L = localStorage w"
    using ot by blast
  have u3: "\<forall>y. Promise_all3 userReq analysesReq statsReq = Inr y \<longrightarrow> ?L = localStorage w"
    using ok by blast
  have i9: "dom (localStorage w) \<subseteq> {''token'', ''user''} \<longrightarrow>
      dom (localStorage (fst (handleSubmit stringify (Inr r) (w, a)))) = {''token'', ''user''} \<and>
      dom (localStorage (handleLogout w)) = {} \<and>
      dom ?L \<subseteq> {''token'', ''user''} \<and>
      (\<forall>x. Promise_all3 userReq analysesReq statsReq = Inl x \<and> status_is_401 x \<longrightarrow>
         dom ?L = {})"
    using 9 by blast
  show ?thesis
    using 1 2 3 lo fr' u1 u2 u3 4 5 6 7 8 i9 by - (intro conjI, assumption+)
qed

theorem storage_keys_witness:
  "dom (localStorage signed_in) \<subseteq> {''token'', ''user''} \<and>
   dom (localStorage (fst (handleSubmit sample_stringify
          (Inr \<lparr>token = ''new'', user_of = sample_user\<rparr>) (signed_in, sample_form)))) =
     {''token'', ''user''} \<and>
   dom (localStorage (handleLogout signed_in)) = {} \<and>
   Promise_all3 (10::nat, Inl unauthorized :: axios_error + user_info)
       (20::nat, Inr [sample_analysis] :: axios_error + analysis list)
       (30::nat, Inr sample_stats :: axios_error + progress_stats) = Inl unauthorized \<and>
   status_is_401 unauthorized \<and>
   localStorage (fst (loadData (10, Inl unauthorized) (20, Inr [sample_analysis])
          (30, Inr sample_stats) (signed_in, dashboard_init))) =
     (localStorage signed_in)(''token'' := None, ''user'' := None) \<and>
   getItem (localStorage (fst (loadData (10, Inl unauthorized) (20, Inr [sample_analysis])
          (30, Inr sample_stats) (signed_in, dashboard_init)))) ''token'' = None \<and>
   getItem (localStorage (fst (loadData (10, Inl unauthorized) (20, Inr [sample_analysis])
          (30, Inr sample_stats) (signed_in, dashboard_init)))) ''user'' = None \<and>
   dom (localStorage (fst (loadData (10, Inl unauthorized) (20, Inr [sample_analysis])
          (30, Inr sample_stats) (signed_in, dashboard_init)))) = {} \<and>
   Promise_all3 (10::nat, Inr sample_user :: axios_error + user_info)
       (20::nat, Inr [sample_analysis] :: axios_error + analysis list)
       (30::nat, Inl server_error :: axios_error + progress_stats) = Inl server_error \<and>
   \<not> status_is_401 server_error \<and>
   localStorage (fst (loadData (10, Inr sample_user) (20, Inr [sample_analysis])
          (30, Inl server_error) (signed_in, dashboard_init))) = localStorage signed_in \<and>
   ''theme'' \<noteq> ''token'' \<and> ''theme'' \<noteq> ''user'' \<and>
   getItem (localStorage (handleLogout (signed_in\<lparr>localStorage :=
       (localStorage signed_in)(''theme'' \<mapsto> ''dark'')\<rparr>))) ''theme'' =
     getItem (localStorage (signed_in\<lparr>localStorage :=
       (localStorage signed_in)(''theme'' \<mapsto> ''dark'')\<rparr>)) ''theme''"
proof -
  have h: "dom (localStorage signed_in) \<subseteq> {''token'', ''user''}"
    by (simp add: signed_in_def)
  have p: "Promise_all3 (10::nat, Inl unauthorized :: axios_error + user_info)
      (20::nat, Inr [sample_analysis] :: axios_error + analysis list)
      (30::nat, Inr sample_stats :: axios_error + progress_stats) = Inl unauthorized"
    by (simp add: Promise_all3_def both_def)
  have u: "status_is_401 unauthorized"
    by (simp add: status_is_401_def unauthorized_def)
  have q: "Promise_all3 (10::nat, Inr sample_user :: axios_error + user_info)
      (20::nat, Inr [sample_analysis] :: axios_error + analysis list)
      (30::nat, Inl server_error :: axios_error + progress_stats) = Inl server_error"
    by (simp add: Promise_all3_def both_def)
  have n: "\<not> status_is_401 server_error"
    by (simp add: status_is_401_def server_error_def)
  have k: "''theme'' \<noteq> ''token'' \<and> ''theme'' \<noteq> ''user''"
    by simp
  note t1 = storage_keys [where w = signed_in and userReq = "(10, Inl unauthorized)"
      and analysesReq = "(20, Inr [sample_analysis])" and statsReq = "(30, Inr sample_stats)"
      and stringify = sample_stringify
      and r = "\<lparr>token = ''new'', user_of = sample_user\<rparr>" and a = sample_form
      and d = dashboard_init and e = server_error and files = "[]"
      and reply = "Inl server_error" and p = progress_init and i = "[]"
      and reply' = "Inl server_error" and v = analysis_init]
  note t2 = storage_keys [where w = signed_in and userReq = "(10, Inr sample_user)"
      and analysesReq = "(20, Inr [sample_analysis])" and statsReq = "(30, Inl server_error)"
      and stringify = sample_stringify
      and r = "\<lparr>token = ''new'', user_of = sample_user\<rparr>" and a = sample_form
      and d = dashboard_init and e = server_error and files = "[]"
      and reply = "Inl server_error" and p = progress_init and i = "[]"
      and reply' = "Inl server_error" and v = analysis_init]
  note t3 = storage_keys [where w = "signed_in\<lparr>localStorage :=
       (localStorage signed_in)(''theme'' \<mapsto> ''dark'')\<rparr>"
      and userReq = "(10, Inr sample_user)"
      and analysesReq = "(20, Inr [sample_analysis])" and statsReq = "(30, Inl server_error)"
      and stringify = sample_stringify
      and r = "\<lparr>token = ''new'', user_of = sample_user\<rparr>" and a = sample_form
      and d = dashboard_init and e = server_error and files = "[]"
      and reply = "Inl server_error" and p = progress_init and i = "[]"
      and reply' = "Inl server_error" and v = analysis_init]
  note logout401 = t1 [THEN conjunct2, THEN conjunct2, THEN conjunct2, THEN conjunct2, THEN conjunct2, THEN conjunct2, THEN conjunct1, THEN spec, THEN mp, OF conjI [OF p u]]
  note other = t2 [THEN conjunct2, THEN conjunct2, THEN conjunct2, THEN conjunct2, THEN conjunct2, THEN conjunct2, THEN conjunct2, THEN conjunct1, THEN spec, THEN mp, OF conjI [OF q n]]
  note frame = t3 [THEN conjunct2, THEN conjunct2, THEN conjunct2, THEN conjunct2, THEN conjunct2, THEN conjunct1, THEN spec, THEN mp, OF k]
  note doms = t1 [THEN conjunct2, THEN conjunct2, THEN conjunct2, THEN conjunct2, THEN conjunct2, THEN conjunct2, THEN conjunct2, THEN conjunct2, THEN conjunct2, THEN conjunct2, THEN conjunct2, THEN conjunct2, THEN conjunct2, THEN conjunct2, THEN mp, OF h]
  note dom401 = doms [THEN conjunct2, THEN conjunct2, THEN conjunct2, THEN spec, THEN mp,
      OF conjI [OF p u]]
  show ?thesis
    using h doms [THEN conjunct1] doms [THEN conjunct2, THEN conjunct1] p u
      logout401 [THEN conjunct1] logout401 [THEN conjunct2, THEN conjunct1]
      logout401 [THEN conjunct2, THEN conjunct2] dom401 q n other
      k [THEN conjunct1] k [THEN conjunct2] frame [THEN conjunct1]
    by - (intro conjI, assumption+)
qed

section \<open>The progress score on screen\<close>

lemma digit_value_digit_char: "d < 10 \<Longrightarrow> digit_value (digit_char d) = d"
proof -
  assume "d < 10"
  then have "d \<in> {0, 1, 2, 3, 4, 5, 6, 7, 8, 9}" by auto
  then show ?thesis
    by (auto simp add: digit_value_def digit_char_def)
qed

lemma digits_nonempty: "digits n \<noteq> []"
  by (induction n rule: digits.induct) (subst digits.simps, simp)

lemma decimal_value_snoc:
  "decimal_value (cs @ [c]) = 10 * decimal_value cs + digit_value c"
  by (simp add: decimal_value_def)

text \<open>The digits printed for \<open>n\<close> read back as \<open>n\<close>.\<close>

lemma decimal_value_digits: "decimal_value (digits n) = n"
proof (induction n rule: digits.induct)
  case (1 n)
  show ?case
  proof (cases "n < 10")
    case True
    then show ?thesis
      by (subst digits.simps) (simp add: decimal_value_def digit_value_digit_char)
  next
    case False
    with 1 have "decimal_value (digits (n div 10)) = n div 10" by simp
    with False show ?thesis
      by (subst digits.simps) (simp add: decimal_value_snoc digit_value_digit_char)
  qed
qed

text \<open>\<open>\<lfloor>x + 1/2\<rfloor>\<close> is an integer nearest to a non-negative \<open>x\<close>.\<close>

lemma nearest_integer:
  fixes x :: rat
  assumes "0 \<le> x"
  shows "\<bar>of_nat (nat \<lfloor>x + 1 / 2\<rfloor>) - x\<bar> \<le> 1 / 2"
    and "\<bar>of_nat (nat \<lfloor>x + 1 / 2\<rfloor>) - x\<bar> \<le> \<bar>of_int k - x\<bar>"
proof -
  let ?n = "\<lfloor>x + 1 / 2\<rfloor>"
  have n0: "0 \<le> ?n" using assms by simp
  then have on: "(of_nat (nat ?n) :: rat) = of_int ?n" by simp
  have lo: "of_int ?n \<le> x + 1 / 2" by (rule of_int_floor_le)
  have hi: "x + 1 / 2 < of_int ?n + 1" using floor_correct [of "x + 1 / 2"] by simp
  show "\<bar>of_nat (nat ?n) - x\<bar> \<le> 1 / 2"
    unfolding on using lo hi by linarith
  show "\<bar>of_nat (nat ?n) - x\<bar> \<le> \<bar>of_int k - x\<bar>"
  proof (cases "k \<le> ?n")
    case True
    show ?thesis
    proof (cases "k = ?n")
      case True
      then show ?thesis unfolding on by simp
    next
      case False
      with \<open>k \<le> ?n\<close> have "k + 1 \<le> ?n" by simp
      then have "(of_int k :: rat) + 1 \<le> of_int ?n"
        by (metis of_int_1 of_int_add of_int_le_iff)
      with lo hi show ?thesis unfolding on by linarith
    qed
  next
    case False
    then have "?n + 1 \<le> k" by simp
    then have "(of_int ?n :: rat) + 1 \<le> of_int k"
      by (metis of_int_1 of_int_add of_int_le_iff)
    with lo hi show ?thesis unfolding on by linarith
  qed
qed

lemma toFixed0_nonneg:
  "0 \<le> x \<Longrightarrow> x < 10 ^ 21 \<Longrightarrow> toFixed0 ts x = digits (nat \<lfloor>x + 1 / 2\<rfloor>)"
  by (simp add: toFixed0_def Let_def)

lemma toFixed0_neg:
  "x < 0 \<Longrightarrow> - (10 ^ 21) < x \<Longrightarrow> toFixed0 ts x = CHR ''-'' # digits (nat \<lfloor>- x + 1 / 2\<rfloor>)"
  by (simp add: toFixed0_def Let_def)

lemma progress_score_cell_absent:
  "progress_score a = None \<Longrightarrow> progress_score_cell ts a = Num 50"
  by (simp add: progress_score_cell_def)

lemma progress_score_cell_present:
  "progress_score a = Some x \<Longrightarrow> 0 \<le> x \<Longrightarrow> x < 10 ^ 21 \<Longrightarrow>
   progress_score_cell ts a = Text (digits (nat \<lfloor>x + 1 / 2\<rfloor>))"
  by (simp add: progress_score_cell_def toFixed0_nonneg digits_nonempty)

lemma progress_score_cell_negative:
  "progress_score a = Some x \<Longrightarrow> x < 0 \<Longrightarrow> - (10 ^ 21) < x \<Longrightarrow>
   progress_score_cell ts a = Text (CHR ''-'' # digits (nat \<lfloor>- x + 1 / 2\<rfloor>))"
  by (simp add: progress_score_cell_def toFixed0_neg)

text \<open>A score of zero is printed as \<open>0\<close>, not as the fallback; 72.5 is printed as 73.\<close>

lemma zero_score_is_printed:
  "progress_score_cell ts (sample_analysis\<lparr>progress_score := Some 0\<rparr>) = Text ''0''"
  by (simp add: progress_score_cell_def toFixed0_def digits.simps digit_char_def)

lemma sample_score_is_rounded:
  "progress_score_cell ts sample_analysis = Text ''73''"
  by (simp add: progress_score_cell_def toFixed0_def sample_analysis_def digits.simps
      digit_char_def)

text \<open>
  Claim C10: in the detail view, on each dashboard card and in each timeline entry
  the score printed is the score cell of that analysis. The cell is the number 50
  when \<open>progress_score\<close> is absent; when it is present (below \<open>10^21\<close> in absolute
  value) the cell is a string, the decimal digits of an integer nearest to the
  score (within one half, and no integer is nearer), after a minus sign when the
  score is negative.
\<close>

theorem progress_score_shown:
  "(progress_score a = None \<longrightarrow> progress_score_cell ts a = Num 50) \<and>
   (\<forall>x. progress_score a = Some x \<and> 0 \<le> x \<and> x < 10 ^ 21 \<longrightarrow>
      (\<exists>n. progress_score_cell ts a = Text (digits n) \<and>
           decimal_value (digits n) = n \<and>
           \<bar>of_nat n - x\<bar> \<le> 1 / 2 \<and>
           (\<forall>k. \<bar>of_nat n - x\<bar> \<le> \<bar>of_int k - x\<bar>))) \<and>
   (\<forall>x. progress_score a = Some x \<and> x < 0 \<and> - (10 ^ 21) < x \<longrightarrow>
      (\<exists>n. progress_score_cell ts a = Text (CHR ''-'' # digits n) \<and>
           decimal_value (digits n) = n \<and>
           \<bar>of_nat n - (- x)\<bar> \<le> 1 / 2 \<and>
           (\<forall>k. \<bar>of_nat n - (- x)\<bar> \<le> \<bar>of_int k - (- x)\<bar>))) \<and>
   (\<forall>c. AnalysisPage_render ts v = Analysis_detail c \<longrightarrow>
      (\<exists>b. shown v = Some b \<and> c = progress_score_cell ts b)) \<and>
   (\<forall>pg cs. Dashboard_render ts d = Page_view pg \<and> recent pg = Cards cs \<longrightarrow>
      map card_score cs = map (progress_score_cell ts) (take 6 (analyses d))) \<and>
   (\<not> p_loading p \<longrightarrow>
      ProgressPage_timeline_scores ts p = map (progress_score_cell ts) (p_analyses p))"
proof -
  have 1: "progress_score a = None \<longrightarrow> progress_score_cell ts a = Num 50"
    by (simp add: progress_score_cell_absent)
  have 2: "\<exists>n. progress_score_cell ts a = Text (digits n) \<and>
           decimal_value (digits n) = n \<and>
           \<bar>of_nat n - x\<bar> \<le> 1 / 2 \<and>
           (\<forall>k. \<bar>of_nat n - x\<bar> \<le> \<bar>of_int k - x\<bar>)"
    if "progress_score a = Some x \<and> 0 \<le> x \<and> x < 10 ^ 21" for x
    using that progress_score_cell_present [of a x ts] nearest_integer [of x]
      decimal_value_digits
    by blast
  have 3: "\<exists>n. progress_score_cell ts a = Text (CHR ''-'' # digits n) \<and>
           decimal_value (digits n) = n \<and>
           \<bar>of_nat n - (- x)\<bar> \<le> 1 / 2 \<and>
           (\<forall>k. \<bar>of_nat n - (- x)\<bar> \<le> \<bar>of_int k - (- x)\<bar>)"
    if h: "progress_score a = Some x \<and> x < 0 \<and> - (10 ^ 21) < x" for x
  proof -
    from h have "0 \<le> - x" by simp
    from nearest_integer [OF this] h progress_score_cell_negative [of a x ts]
      decimal_value_digits
    show ?thesis by blast
  qed
  have 4: "\<exists>b. shown v = Some b \<and> c = progress_score_cell ts b"
    if "AnalysisPage_render ts v = Analysis_detail c" for c
    using that by (auto simp add: AnalysisPage_render_def split: if_splits option.splits)
  have 5: "map card_score cs = map (progress_score_cell ts) (take 6 (analyses d))"
    if "Dashboard_render ts d = Page_view pg \<and> recent pg = Cards cs" for pg cs
    using that
    by (auto simp add: Dashboard_render_def analysis_card_def comp_def split: if_splits)
  have 6: "\<not> p_loading p \<longrightarrow>
      ProgressPage_timeline_scores ts p = map (progress_score_cell ts) (p_analyses p)"
    by (simp add: ProgressPage_timeline_scores_def)
  from 1 2 3 4 5 6 show ?thesis by blast
qed

theorem progress_score_shown_witness:
  "progress_score sample_analysis = Some (145 / 2) \<and>
   (\<exists>n. progress_score_cell (\<lambda>x. []) sample_analysis = Text (digits n) \<and>
        decimal_value (digits n) = n \<and>
        \<bar>of_nat n - (145 / 2 :: rat)\<bar> \<le> 1 / 2) \<and>
   progress_score (sample_analysis\<lparr>progress_score := Some (- (2 / 5))\<rparr>) = Some (- (2 / 5)) \<and>
   (\<exists>n. progress_score_cell (\<lambda>x. []) (sample_analysis\<lparr>progress_score := Some (- (2 / 5))\<rparr>) =
          Text (CHR ''-'' # digits n) \<and>
        \<bar>of_nat n - (- (- (2 / 5)) :: rat)\<bar> \<le> 1 / 2) \<and>
   progress_score (sample_analysis\<lparr>progress_score := None\<rparr>) = None \<and>
   progress_score_cell (\<lambda>x. []) (sample_analysis\<lparr>progress_score := None\<rparr>) = Num 50 \<and>
   AnalysisPage_render (\<lambda>x. []) \<lparr>shown = Some sample_analysis, a_loading = False\<rparr> =
     Analysis_detail (progress_score_cell (\<lambda>x. []) sample_analysis) \<and>
   (\<exists>b. shown \<lparr>shown = Some sample_analysis, a_loading = False\<rparr> = Some b \<and>
        progress_score_cell (\<lambda>x. []) sample_analysis = progress_score_cell (\<lambda>x. []) b) \<and>
   Dashboard_render (\<lambda>x. []) (dashboard_init\<lparr>analyses := [sample_analysis], loading := False\<rparr>) =
     Page_view
       \<lparr>user_name = None, stat_analyses = 0, stat_streak = 0, stat_improvement = ([], 0),
        upload_label = ''Choose Photo'', upload_disabled = False,
        recent = Cards [analysis_card (\<lambda>x. []) sample_analysis]\<rparr> \<and>
   map card_score [analysis_card (\<lambda>x. []) sample_analysis] =
     map (progress_score_cell (\<lambda>x. []))
       (take 6 (analyses (dashboard_init\<lparr>analyses := [sample_analysis], loading := False\<rparr>))) \<and>
   \<not> p_loading \<lparr>p_analyses = [sample_analysis], p_stats = None, p_loading = False\<rparr> \<and>
   ProgressPage_timeline_scores (\<lambda>x. [])
       \<lparr>p_analyses = [sample_analysis], p_stats = None, p_loading = False\<rparr> =
     [progress_score_cell (\<lambda>x. []) sample_analysis]"
proof -
  have s: "progress_score sample_analysis = Some (145 / 2)"
    by (simp add: sample_analysis_def)
  have r: "(0::rat) \<le> 145 / 2 \<and> (145 / 2 :: rat) < 10 ^ 21"
    by simp
  from progress_score_shown [of sample_analysis "\<lambda>x. []"] s r
  have a: "\<exists>n. progress_score_cell (\<lambda>x. []) sample_analysis = Text (digits n) \<and>
        decimal_value (digits n) = n \<and>
        \<bar>of_nat n - (145 / 2 :: rat)\<bar> \<le> 1 / 2"
    by blast
  have r': "(- (2 / 5) :: rat) < 0 \<and> - (10 ^ 21) < (- (2 / 5) :: rat)"
    by simp
  from progress_score_shown [of "sample_analysis\<lparr>progress_score := Some (- (2 / 5))\<rparr>" "\<lambda>x. []"]
    r'
  have a': "\<exists>n. progress_score_cell (\<lambda>x. [])
                   (sample_analysis\<lparr>progress_score := Some (- (2 / 5))\<rparr>) =
          Text (CHR ''-'' # digits n) \<and>
        \<bar>of_nat n - (- (- (2 / 5)) :: rat)\<bar> \<le> 1 / 2"
    by fastforce
  from progress_score_shown [of "sample_analysis\<lparr>progress_score := None\<rparr>" "\<lambda>x. []"]
  have b: "progress_score_cell (\<lambda>x. []) (sample_analysis\<lparr>progress_score := None\<rparr>) = Num 50"
    by simp
  have v: "AnalysisPage_render (\<lambda>x. []) \<lparr>shown = Some sample_analysis, a_loading = False\<rparr> =
     Analysis_detail (progress_score_cell (\<lambda>x. []) sample_analysis)"
    by (simp add: AnalysisPage_render_def)
  from progress_score_shown [where ts = "\<lambda>x. []"
      and v = "\<lparr>shown = Some sample_analysis, a_loading = False\<rparr>"] v
  have v': "\<exists>b. shown \<lparr>shown = Some sample_analysis, a_loading = False\<rparr> = Some b \<and>
        progress_score_cell (\<lambda>x. []) sample_analysis = progress_score_cell (\<lambda>x. []) b"
    by blast
  have d: "Dashboard_render (\<lambda>x. [])
       (dashboard_init\<lparr>analyses := [sample_analysis], loading := False\<rparr>) =
     Page_view
       \<lparr>user_name = None, stat_analyses = 0, stat_streak = 0, stat_improvement = ([], 0),
        upload_label = ''Choose Photo'', upload_disabled = False,
        recent = Cards [analysis_card (\<lambda>x. []) sample_analysis]\<rparr>"
    by (simp add: Dashboard_render_def dashboard_init_def)
  have "recent \<lparr>user_name = None, stat_analyses = 0, stat_streak = 0, stat_improvement = ([], 0),
        upload_label = ''Choose Photo'', upload_disabled = False,
        recent = Cards [analysis_card (\<lambda>x. []) sample_analysis]\<rparr> =
          Cards [analysis_card (\<lambda>x. []) sample_analysis]"
    by simp
  with d progress_score_shown [where ts = "\<lambda>x. []"
      and d = "dashboard_init\<lparr>analyses := [sample_analysis], loading := False\<rparr>"]
  have d': "map card_score [analysis_card (\<lambda>x. []) sample_analysis] =
     map (progress_score_cell (\<lambda>x. []))
       (take 6 (analyses (dashboard_init\<lparr>analyses := [sample_analysis], loading := False\<rparr>)))"
    by blast
  from progress_score_shown [where ts = "\<lambda>x. []"
      and p = "\<lparr>p_analyses = [sample_analysis], p_stats = None, p_loading = False\<rparr>"]
  have c: "ProgressPage_timeline_scores (\<lambda>x. [])
       \<lparr>p_analyses = [sample_analysis], p_stats = None, p_loading = False\<rparr> =
     [progress_score_cell (\<lambda>x. []) sample_analysis]"
    by simp
  from s a a' b v v' d d' c show ?thesis by simp
qed

section \<open>The first rejection decides\<close>

text \<open>
  \<open>loadData\<close> inspects the reason its \<open>Promise.all\<close> rejects with, which is the
  reason of the request that fails first. When the history request fails with
  status 500 before the stats request fails with 401, the 401 is never seen and the
  session stays.
\<close>

lemma loadData_late_401_keeps_session:
  "getItem (localStorage (fst (loadData (10, Inr sample_user) (20, Inl server_error)
      (30, Inl unauthorized) (signed_in, dashboard_init)))) ''token'' = Some ''tok'' \<and>
   location (fst (loadData (10, Inr sample_user) (20, Inl server_error)
      (30, Inl unauthorized) (signed_in, dashboard_init))) = DashboardPath"
proof -
  have p: "Promise_all3 (10::nat, Inr sample_user)
             (20::nat, Inl server_error :: axios_error + analysis list)
             (30::nat, Inl unauthorized :: axios_error + progress_stats) = Inl server_error"
    by (simp add: Promise_all3_def both_def)
  have n: "\<not> status_is_401 server_error"
    by (simp add: status_is_401_def server_error_def)
  show ?thesis
    by (simp add: loadData_rejected [OF p] n getItem_def signed_in_def)
qed

end
